theory Spec2Isabelle
  imports Main "HOL-Library.Word"
begin

section \<open>The wrapped native library and the build\<close>

text \<open>
  sqlite3pp wraps the C library sqlite3. The library, its header sqlite3.h, the bmcl
  support library and the C++ standard library are not part of the wrapper's sources, so
  everything the wrapper takes from them is a parameter of the model, gathered in the
  record \<open>env\<close> below.

  A native pointer (\<open>sqlite3*\<close>, \<open>sqlite3_stmt*\<close>) is an address or \<open>nullptr\<close>.
\<close>

type_synonym ptr = "nat option"

text \<open>\<open>enum class Error : int {}\<close>: a native result code; \<open>OptError\<close> is \<open>bmcl::Option<Error>\<close>.\<close>

type_synonym Error = int
type_synonym OptError = "Error option"

text \<open>A C \<open>double\<close>; bound values are only passed on to the library.\<close>

typedecl double

text \<open>
  The calls into the native library that change or read its state through a result code.
  A \<open>const char*\<close> argument that may be null is a \<open>string option\<close>. Text and blob arguments
  that come with a length carry the bytes and the length the wrapper passes
  (\<open>static_cast<int>(size)\<close>); the last argument of \<open>sqlite3_bind_text\<close> and
  \<open>sqlite3_bind_blob\<close> is \<open>True\<close> for \<open>SQLITE_TRANSIENT\<close> and \<open>False\<close> for
  \<open>SQLITE_STATIC\<close>.
\<close>

datatype call =
    sqlite3_open_v2 "string option" "32 word" "string option"
  | sqlite3_close ptr
  | sqlite3_exec ptr "string option"
  | sqlite3_db_config ptr int int
  | sqlite3_extended_result_codes ptr int
  | sqlite3_busy_timeout ptr int
  | sqlite3_prepare_v2 ptr string int
  | sqlite3_reset ptr
  | sqlite3_finalize ptr
  | sqlite3_step ptr
  | sqlite3_clear_bindings ptr
  | sqlite3_bind_null ptr "32 word"
  | sqlite3_bind_int ptr "32 word" int
  | sqlite3_bind_int64 ptr "32 word" int
  | sqlite3_bind_double ptr "32 word" double
  | sqlite3_bind_text ptr "32 word" string int bool
  | sqlite3_bind_blob ptr "32 word" "8 word list" int bool

text \<open>
  The state of the world outside the wrapper is the sequence of native calls made so far:
  what the library answers to a call may depend on every call before it.
\<close>

type_synonym world = "call list"

text \<open>A \<open>std::function\<close> handler: \<open>None\<close> is the empty function.\<close>

type_synonym handler = "nat option"

record env =
  SQLITE_OK :: int
  SQLITE_ERROR :: int
  SQLITE_MISUSE :: int
  SQLITE_ROW :: int
  SQLITE_DONE :: int
  SQLITE_DBCONFIG_ENABLE_FKEY :: int
  SQLITE_DBCONFIG_ENABLE_TRIGGER :: int
  \<comment> \<open>the result code of a native call, after the calls of the world\<close>
  result_code :: "world \<Rightarrow> call \<Rightarrow> int"
  \<comment> \<open>what \<open>sqlite3_open_v2\<close> stores through \<open>ppDb\<close>\<close>
  ppDb :: "world \<Rightarrow> call \<Rightarrow> ptr"
  \<comment> \<open>what \<open>sqlite3_prepare_v2\<close> stores through \<open>ppStmt\<close>, and how far into the text
      the \<open>pzTail\<close> it stores points\<close>
  ppStmt :: "world \<Rightarrow> call \<Rightarrow> ptr"
  pzTail :: "world \<Rightarrow> call \<Rightarrow> nat"
  \<comment> \<open>whether a \<open>sqlite3_prepare_v2\<close> that fails returns before it stores a \<open>pzTail\<close>\<close>
  no_tail :: "world \<Rightarrow> call \<Rightarrow> bool"
  \<comment> \<open>the text of the view \<open>bmcl::StringView(nullptr, end)\<close>, for a text that ends at
      \<open>end\<close>\<close>
  null_view :: "string \<Rightarrow> string"
  \<comment> \<open>the text \<open>sqlite3_vmprintf\<close> formats, or a null pointer when it has no memory\<close>
  sqlite3_vmprintf :: "string \<Rightarrow> string option list \<Rightarrow> string option"
  sqlite3_bind_parameter_index :: "world \<Rightarrow> ptr \<Rightarrow> string \<Rightarrow> int"
  sqlite3_column_count :: "world \<Rightarrow> ptr \<Rightarrow> int"
  sqlite3_column_name :: "world \<Rightarrow> ptr \<Rightarrow> 32 word \<Rightarrow> string"
  \<comment> \<open>the characters \<open>bmcl::StringView::ltrim\<close> removes\<close>
  isspace :: "char \<Rightarrow> bool"
  \<comment> \<open>the state \<open>std::move\<close> leaves a \<open>std::function\<close> in, when it is moved into
      another one and when it is move-assigned to itself\<close>
  moved_from :: "handler \<Rightarrow> handler"
  self_moved :: "handler \<Rightarrow> handler"
  \<comment> \<open>whether \<open>assert\<close> is compiled out\<close>
  NDEBUG :: bool

text \<open>A native call: the library's answer, and the world with the call made.\<close>

definition native :: "env \<Rightarrow> call \<Rightarrow> world \<Rightarrow> int \<times> world" where
  "native E c w = (result_code E w c, w @ [c])"

text \<open>
  How a call of the wrapper ends: it returns, an \<open>assert\<close> fails (the process aborts),
  or it throws \<open>database_error\<close>. The last two keep the world they were reached in.
\<close>

datatype 'a outcome = Return 'a | Abort world | Throw world

text \<open>The conversion of a C \<open>int64_t\<close> or \<open>size_t\<close> value to \<open>int\<close>.\<close>

definition to_int :: "int \<Rightarrow> int" where
  "to_int n = sint (word_of_int n :: 32 word)"

section \<open>Error-code translation\<close>

definition sqlite_call :: "env \<Rightarrow> int \<Rightarrow> OptError" where
  "sqlite_call E r = (if r = SQLITE_OK E then None else Some r)"

section \<open>database\<close>

text \<open>
  A member \<open>x_\<close> of class \<open>c\<close> is the field \<open>c_x\<close>, and a method \<open>c::m\<close> is the
  function \<open>c_m\<close>. A method takes the environment, the object it is called on and
  the world, and returns its result with the object and the world as it leaves them.
\<close>

record database =
  database_db :: ptr
  database_bh :: handler
  database_ch :: handler
  database_rh :: handler
  database_uh :: handler
  database_ah :: handler

definition database_is_connected :: "database \<Rightarrow> bool" where
  "database_is_connected d = (database_db d \<noteq> None)"

text \<open>
  \<open>database::disconnect\<close>. The message it logs when the close fails is not modelled.
\<close>

definition database_disconnect ::
  "env \<Rightarrow> database \<Rightarrow> world \<Rightarrow> OptError \<times> database \<times> world" where
  "database_disconnect E d w =
     (if database_db d = None then (None, d, w)
      else
        let (r0, w1) = native E (sqlite3_close (database_db d)) w;
            r = sqlite_call E r0
        in if r = None then (r, d\<lparr>database_db := None\<rparr>, w1) else (r, d, w1))"






text \<open>\<open>database::execute(const char*)\<close> and \<open>database::execute(const std::string&)\<close>.\<close>

definition database_execute ::
  "env \<Rightarrow> database \<Rightarrow> string option \<Rightarrow> world \<Rightarrow> OptError \<times> world" where
  "database_execute E d sql w =
     (let (r0, w1) = native E (sqlite3_exec (database_db d) sql) w in (sqlite_call E r0, w1))"










definition database_begin :: "env \<Rightarrow> database \<Rightarrow> bool \<Rightarrow> world \<Rightarrow> OptError \<times> world" where
  "database_begin E d immediate w =
     (if immediate then database_execute E d (Some ''BEGIN IMMEDIATE'') w
      else database_execute E d (Some ''BEGIN'') w)"

definition database_commit :: "env \<Rightarrow> database \<Rightarrow> world \<Rightarrow> OptError \<times> world" where
  "database_commit E d w = database_execute E d (Some ''COMMIT'') w"

definition database_rollback :: "env \<Rightarrow> database \<Rightarrow> world \<Rightarrow> OptError \<times> world" where
  "database_rollback E d w = database_execute E d (Some ''ROLLBACK'') w"

subsection \<open>Moving a database\<close>

text \<open>
  The move constructor and the move assignment work on two objects, which a caller may
  choose to be the same one, so they are modelled on a store of \<open>database\<close> objects by
  address. Each assignment of the source is one update of the store, in the source's
  order.
\<close>

type_synonym heap = "nat \<Rightarrow> database"





section \<open>statement\<close>

text \<open>
  \<open>statement_db\<close> is the reference \<open>db_\<close>: the address of the database in the store,
  which the methods that read through it take as \<open>s\<close>.
\<close>

record statement =
  statement_db :: nat
  statement_stmt :: ptr

definition statement_finish ::
  "env \<Rightarrow> statement \<Rightarrow> world \<Rightarrow> (OptError \<times> statement \<times> world) outcome" where
  "statement_finish E st w =
     (if statement_stmt st = None then Return (None, st, w)
      else
        let w1 = snd (native E (sqlite3_reset (statement_stmt st)) w);
            (r0, w2) = native E (sqlite3_finalize (statement_stmt st)) w1;
            r = sqlite_call E r0
        in if r \<noteq> None \<and> \<not> NDEBUG E then Abort w2
           else Return (r, st\<lparr>statement_stmt := None\<rparr>, w2))"

text \<open>\<open>statement::~statement\<close>.\<close>

definition statement_dtor :: "env \<Rightarrow> statement \<Rightarrow> world \<Rightarrow> world outcome" where
  "statement_dtor E st w =
     (case statement_finish E st w of
        Return (r, st1, w1) \<Rightarrow> if r \<noteq> None \<and> \<not> NDEBUG E then Abort w1 else Return w1
      | Abort w1 \<Rightarrow> Abort w1
      | Throw w1 \<Rightarrow> Throw w1)"

text \<open>
  \<open>statement::prepare\<close>. \<open>left\<close> is \<open>None\<close> for a null pointer and otherwise the view
  the pointer refers to; the view as the call leaves it is returned. A
  \<open>sqlite3_prepare_v2\<close> that returns \<open>SQLITE_OK\<close> has stored its \<open>pzTail\<close>; one that fails
  may have stored none (\<open>no_tail\<close>), and \<open>tail\<close> is then still the null pointer it was
  initialised with.
\<close>

definition statement_prepare ::
  "env \<Rightarrow> heap \<Rightarrow> statement \<Rightarrow> string \<Rightarrow> string option \<Rightarrow> world \<Rightarrow>
   (OptError \<times> string option \<times> statement \<times> world) outcome" where
  "statement_prepare E s st stmt left w =
     (case statement_finish E st w of
        Return (r, st1, w1) \<Rightarrow>
          if r \<noteq> None then Return (r, map_option (\<lambda>_. stmt) left, st1, w1)
          else
            let c = sqlite3_prepare_v2 (database_db (s (statement_db st1))) stmt
                      (to_int (int (length stmt)));
                (r0, w2) = native E c w1;
                st2 = st1\<lparr>statement_stmt := ppStmt E w1 c\<rparr>;
                tail = (if r0 \<noteq> SQLITE_OK E \<and> no_tail E w1 c then null_view E stmt
                        else drop (pzTail E w1 c) stmt)
            in Return (sqlite_call E r0, map_option (\<lambda>_. tail) left, st2, w2)
      | Abort w1 \<Rightarrow> Abort w1
      | Throw w1 \<Rightarrow> Throw w1)"

text \<open>
  \<open>statement::statement(database& db, bmcl::StringView stmt)\<close>. The message it logs
  before it throws is not modelled.
\<close>

definition statement_ctor ::
  "env \<Rightarrow> heap \<Rightarrow> nat \<Rightarrow> string \<Rightarrow> world \<Rightarrow> (statement \<times> world) outcome" where
  "statement_ctor E s db stmt w =
     (let st = \<lparr>statement_db = db, statement_stmt = None\<rparr>
      in if stmt = [] then Return (st, w)
         else
           case statement_prepare E s st stmt None w of
             Return (r, left, st1, w1) \<Rightarrow>
               if r \<noteq> None then (if NDEBUG E then Throw w1 else Abort w1)
               else Return (st1, w1)
           | Abort w1 \<Rightarrow> Abort w1
           | Throw w1 \<Rightarrow> Throw w1)"

text \<open>\<open>bmcl::Result<bool, Error>\<close> is \<open>Error + bool\<close>.\<close>

definition statement_step :: "env \<Rightarrow> statement \<Rightarrow> world \<Rightarrow> (Error + bool) \<times> world" where
  "statement_step E st w =
     (let (r, w1) = native E (sqlite3_step (statement_stmt st)) w
      in if r = SQLITE_DONE E then (Inr False, w1)
         else if r = SQLITE_ROW E then (Inr True, w1)
         else (Inl r, w1))"

definition statement_reset :: "env \<Rightarrow> statement \<Rightarrow> world \<Rightarrow> OptError \<times> world" where
  "statement_reset E st w =
     (let (r0, w1) = native E (sqlite3_reset (statement_stmt st)) w in (sqlite_call E r0, w1))"

definition statement_exec :: "env \<Rightarrow> statement \<Rightarrow> world \<Rightarrow> OptError \<times> world" where
  "statement_exec E st w =
     (if statement_stmt st = None then (Some (SQLITE_MISUSE E), w)
      else
        let (r, w1) = statement_reset E st w
        in if r \<noteq> None then (r, w1)
           else
             let (r, w2) = native E (sqlite3_step (statement_stmt st)) w1
             in if r = SQLITE_DONE E \<or> r = SQLITE_ROW E \<or> r = SQLITE_OK E then (None, w2)
                else (Some r, w2))"


text \<open>The overloads of \<open>statement::bind(uint idx, ...)\<close>, named by the type they bind.\<close>

datatype copy_semantic = copy | nocopy
















section \<open>selecter\<close>

text \<open>A \<open>selecter\<close> is a \<open>statement\<close> with no member of its own.\<close>

definition selecter_exec :: "env \<Rightarrow> statement \<Rightarrow> world \<Rightarrow> OptError \<times> world" where
  "selecter_exec E st w =
     (if statement_stmt st = None then (Some (SQLITE_MISUSE E), w)
      else statement_reset E st w)"

definition selecter_next :: "env \<Rightarrow> statement \<Rightarrow> world \<Rightarrow> bool \<times> world" where
  "selecter_next E st w =
     (let (r, w1) = statement_step E st w
      in case r of Inl e \<Rightarrow> (False, w1) | Inr b \<Rightarrow> (b, w1))"

text \<open>
  \<open>column_count\<close> and \<open>column_name\<close> read the compiled statement and change nothing. The
  \<open>int\<close> that \<open>sqlite3_column_count\<close> returns is converted to \<open>uint\<close>.
\<close>

definition selecter_column_count :: "env \<Rightarrow> statement \<Rightarrow> world \<Rightarrow> 32 word" where
  "selecter_column_count E st w = word_of_int (sqlite3_column_count E w (statement_stmt st))"

definition selecter_column_name :: "env \<Rightarrow> statement \<Rightarrow> world \<Rightarrow> 32 word \<Rightarrow> string" where
  "selecter_column_name E st w idx = sqlite3_column_name E w (statement_stmt st) idx"

text \<open>The loop of \<open>selecter::column_index\<close>, from the index \<open>i\<close>; \<open>sz\<close> is its \<open>size\<close>.\<close>

function column_index_loop ::
  "env \<Rightarrow> statement \<Rightarrow> world \<Rightarrow> string \<Rightarrow> 32 word \<Rightarrow> 32 word \<Rightarrow> 32 word option" where
  "column_index_loop E st w name sz i =
     (if i < sz then
        (if name = selecter_column_name E st w i then Some i
         else column_index_loop E st w name sz (i + 1))
      else None)"
  by pat_completeness auto
termination
proof (relation "measure (\<lambda>(E, st, w, name, sz, i). unat sz - unat i)")
  show "wf (measure (\<lambda>(E, st, w, name, sz, i). unat sz - unat i))"
    by simp
next
  fix E :: env and st :: statement and w :: world and name :: string
    and sz i :: "32 word"
  assume "i < sz"
  then have less: "unat i < unat sz"
    by (simp add: word_less_nat_alt)
  moreover have "unat sz < 2 ^ 32"
    using unsigned_less [of sz, where ?'a = nat] by simp
  ultimately have "unat i + unat (1 :: 32 word) < 2 ^ LENGTH(32)"
    by simp
  then have "unat (i + 1) = unat i + 1"
    using unat_add_lem [of i 1] by simp
  with less show "((E, st, w, name, sz, i + 1), (E, st, w, name, sz, i))
      \<in> measure (\<lambda>(E, st, w, name, sz, i). unat sz - unat i)"
    by simp
qed

definition selecter_column_index :: "env \<Rightarrow> statement \<Rightarrow> world \<Rightarrow> string \<Rightarrow> 32 word option" where
  "selecter_column_index E st w name =
     column_index_loop E st w name (selecter_column_count E st w) 0"

section \<open>batch\<close>

text \<open>
  A \<open>bmcl::StringView\<close> is modelled by the text it views, taken not to change while it
  is viewed. \<open>batch_data\<close> is the copy of the text the batch owns, when it made one.
\<close>

record batch =
  batch_db :: nat
  batch_data :: "string option"
  batch_state :: string
  batch_orig :: string

definition batch_ctor :: "nat \<Rightarrow> batch" where
  "batch_ctor db = \<lparr>batch_db = db, batch_data = None, batch_state = [], batch_orig = []\<rparr>"

definition batch_reset :: "batch \<Rightarrow> batch" where
  "batch_reset b = b\<lparr>batch_state := batch_orig b\<rparr>"

text \<open>
  \<open>copy_semantic\<close> is an unscoped enumeration, \<open>copy\<close> first: as the condition of an
  \<open>if\<close> it converts to \<open>bool\<close> through its value.
\<close>

fun copy_semantic_value :: "copy_semantic \<Rightarrow> nat" where
  "copy_semantic_value copy = 0"
| "copy_semantic_value nocopy = 1"

definition batch_prepare :: "batch \<Rightarrow> string \<Rightarrow> copy_semantic \<Rightarrow> OptError \<times> batch" where
  "batch_prepare b stmt fcopy =
     (let b1 = (if stmt \<noteq> [] \<and> copy_semantic_value fcopy \<noteq> 0
                then b\<lparr>batch_data := Some stmt, batch_orig := stmt\<rparr>
                else b\<lparr>batch_orig := stmt\<rparr>)
      in (None, b1\<lparr>batch_state := batch_orig b1\<rparr>))"

definition batch_state_view :: "batch \<Rightarrow> string" where
  "batch_state_view b = batch_state b"

text \<open>\<open>bmcl::StringView::ltrim\<close>: the view without its leading white space.\<close>

definition ltrim :: "env \<Rightarrow> string \<Rightarrow> string" where
  "ltrim E v = dropWhile (isspace E) v"

text \<open>
  Leaving the scope of the local \<open>statement stmt\<close> of \<open>batch::execute_next\<close> with the
  value \<open>r\<close>: the destructor of \<open>stmt\<close> runs, then the call returns.
\<close>

definition leave_scope ::
  "env \<Rightarrow> statement \<Rightarrow> Error + bool \<Rightarrow> batch \<Rightarrow> world \<Rightarrow>
   ((Error + bool) \<times> batch \<times> world) outcome" where
  "leave_scope E stmt r b w =
     (case statement_dtor E stmt w of
        Return w1 \<Rightarrow> Return (r, b, w1)
      | Abort w1 \<Rightarrow> Abort w1
      | Throw w1 \<Rightarrow> Throw w1)"

definition batch_execute_next ::
  "env \<Rightarrow> heap \<Rightarrow> batch \<Rightarrow> world \<Rightarrow> ((Error + bool) \<times> batch \<times> world) outcome" where
  "batch_execute_next E s b w =
     (let b1 = b\<lparr>batch_state := ltrim E (batch_state b)\<rparr>
      in if batch_state b1 = [] then Return (Inr False, b1, w)
         else
           case statement_ctor E s (batch_db b1) [] w of
             Abort w0 \<Rightarrow> Abort w0
           | Throw w0 \<Rightarrow> Throw w0
           | Return (stmt, w0) \<Rightarrow>
               (case statement_prepare E s stmt (batch_state b1) (Some (batch_state b1)) w0 of
                  Abort w1 \<Rightarrow> Abort w1
                | Throw w1 \<Rightarrow> Throw w1
                | Return (r, view, stmt1, w1) \<Rightarrow>
                    (case r of
                       Some e \<Rightarrow> leave_scope E stmt1 (Inl e) b1 w1
                     | None \<Rightarrow>
                         (case statement_step E stmt1 w1 of
                            (Inl e, w2) \<Rightarrow> leave_scope E stmt1 (Inl e) b1 w2
                          | (Inr row, w2) \<Rightarrow>
                              (case statement_finish E stmt1 w2 of
                                 Abort w3 \<Rightarrow> Abort w3
                               | Throw w3 \<Rightarrow> Throw w3
                               | Return (r, stmt2, w3) \<Rightarrow>
                                   (case r of
                                      Some e \<Rightarrow> leave_scope E stmt2 (Inl e) b1 w3
                                    | None \<Rightarrow>
                                        let b2 = b1\<lparr>batch_state := case_option [] id view\<rparr>
                                        in leave_scope E stmt2 (Inr (batch_state b2 \<noteq> []))
                                             b2 w3))))))"

text \<open>
  \<open>batch::execute_all\<close>. Nothing bounds the number of rounds of its loop, so the model
  is a partial function: \<open>None\<close> when the loop never ends.
\<close>

partial_function (option) batch_execute_all ::
  "env \<Rightarrow> heap \<Rightarrow> batch \<Rightarrow> world \<Rightarrow> (OptError \<times> batch \<times> world) outcome option" where
  "batch_execute_all E s b w =
     (case batch_execute_next E s b w of
        Abort w1 \<Rightarrow> Some (Abort w1)
      | Throw w1 \<Rightarrow> Some (Throw w1)
      | Return (r, b1, w1) \<Rightarrow>
          (case r of
             Inl e \<Rightarrow> Some (Return (Some e, b1, w1))
           | Inr hasSmth \<Rightarrow>
               if hasSmth then batch_execute_all E s b1 w1
               else Some (Return (None, b1, w1))))"

section \<open>transaction\<close>

text \<open>\<open>transaction_db\<close> is the pointer \<open>db_\<close>: \<open>None\<close>, or the address of a database.\<close>

record transaction =
  transaction_db :: "nat option"
  transaction_fcommit :: bool

definition transaction_ctor ::
  "env \<Rightarrow> heap \<Rightarrow> nat \<Rightarrow> bool \<Rightarrow> bool \<Rightarrow> world \<Rightarrow> (transaction \<times> world) outcome" where
  "transaction_ctor E s db fcommit immediate w =
     (let t = \<lparr>transaction_db = Some db, transaction_fcommit = fcommit\<rparr>;
          (rc, w1) = database_begin E (s db) immediate w
      in if rc \<noteq> None then
           (if NDEBUG E then Return (t\<lparr>transaction_db := None\<rparr>, w1) else Abort w1)
         else Return (t, w1))"

definition transaction_dtor :: "env \<Rightarrow> heap \<Rightarrow> transaction \<Rightarrow> world \<Rightarrow> world outcome" where
  "transaction_dtor E s t w =
     (case transaction_db t of
        None \<Rightarrow> Return w
      | Some db \<Rightarrow>
          let (r, w1) = (if transaction_fcommit t then database_commit E (s db) w
                         else database_rollback E (s db) w)
          in if r \<noteq> None \<and> \<not> NDEBUG E then Abort w1 else Return w1)"

definition transaction_commit ::
  "env \<Rightarrow> heap \<Rightarrow> transaction \<Rightarrow> world \<Rightarrow> OptError \<times> transaction \<times> world" where
  "transaction_commit E s t w =
     (case transaction_db t of
        None \<Rightarrow> (Some (SQLITE_MISUSE E), t, w)
      | Some db \<Rightarrow>
          let t1 = t\<lparr>transaction_db := None\<rparr>;
              (r, w1) = database_commit E (s db) w
          in (r, t1, w1))"

definition transaction_rollback ::
  "env \<Rightarrow> heap \<Rightarrow> transaction \<Rightarrow> world \<Rightarrow> OptError \<times> transaction \<times> world" where
  "transaction_rollback E s t w =
     (case transaction_db t of
        None \<Rightarrow> (Some (SQLITE_MISUSE E), t, w)
      | Some db \<Rightarrow>
          let t1 = t\<lparr>transaction_db := None\<rparr>;
              (r, w1) = database_rollback E (s db) w
          in (r, t1, w1))"

section \<open>Runs of calls\<close>

text \<open>The world a call ends in, however it ends.\<close>

definition outcome_world :: "('a \<Rightarrow> world) \<Rightarrow> 'a outcome \<Rightarrow> world" where
  "outcome_world f oc = (case oc of Return x \<Rightarrow> f x | Abort w \<Rightarrow> w | Throw w \<Rightarrow> w)"




text \<open>The native calls that compile a statement, and those that run one.\<close>

fun is_prepare :: "call \<Rightarrow> bool" where
  "is_prepare (sqlite3_prepare_v2 p sql n) = True"
| "is_prepare c = False"

fun is_step :: "call \<Rightarrow> bool" where
  "is_step (sqlite3_step p) = True"
| "is_step c = False"

text \<open>The native calls that end a transaction.\<close>

fun terminating :: "call \<Rightarrow> bool" where
  "terminating (sqlite3_exec p sql) = (sql = Some ''COMMIT'' \<or> sql = Some ''ROLLBACK'')"
| "terminating c = False"

text \<open>\<open>n\<close> calls of \<open>batch::execute_next\<close> in a row, whatever each of them returns.\<close>

fun batch_execute_next_times ::
  "env \<Rightarrow> heap \<Rightarrow> nat \<Rightarrow> batch \<Rightarrow> world \<Rightarrow> (batch \<times> world) outcome" where
  "batch_execute_next_times E s 0 b w = Return (b, w)"
| "batch_execute_next_times E s (Suc n) b w =
     (case batch_execute_next E s b w of
        Return (r, b1, w1) \<Rightarrow> batch_execute_next_times E s n b1 w1
      | Abort w1 \<Rightarrow> Abort w1
      | Throw w1 \<Rightarrow> Throw w1)"

text \<open>
  The library makes progress: compiling a text that is not empty moves the tail
  forward by at least one character.
\<close>

definition progress :: "env \<Rightarrow> bool" where
  "progress E = (\<forall>w p sql n. sql \<noteq> [] \<longrightarrow> 0 < pzTail E w (sqlite3_prepare_v2 p sql n))"

text \<open>
  The life of a transaction: it is constructed, its owner calls \<open>commit\<close> and \<open>rollback\<close>
  in some order, whatever they return, and it is destroyed.
\<close>

datatype transaction_call = Commit | Rollback

fun transaction_calls ::
  "env \<Rightarrow> heap \<Rightarrow> transaction_call list \<Rightarrow> transaction \<Rightarrow> world \<Rightarrow> transaction \<times> world" where
  "transaction_calls E s [] t w = (t, w)"
| "transaction_calls E s (c # cs) t w =
     (let (r, t1, w1) = (case c of Commit \<Rightarrow> transaction_commit E s t w
                          | Rollback \<Rightarrow> transaction_rollback E s t w)
      in transaction_calls E s cs t1 w1)"

definition transaction_lifetime ::
  "env \<Rightarrow> heap \<Rightarrow> nat \<Rightarrow> bool \<Rightarrow> bool \<Rightarrow> transaction_call list \<Rightarrow> world \<Rightarrow> world outcome" where
  "transaction_lifetime E s db fcommit immediate cs w =
     (case transaction_ctor E s db fcommit immediate w of
        Return (t, w1) \<Rightarrow>
          (let (t2, w2) = transaction_calls E s cs t w1 in transaction_dtor E s t2 w2)
      | Abort w1 \<Rightarrow> Abort w1
      | Throw w1 \<Rightarrow> Throw w1)"

section \<open>A small native library\<close>

text \<open>
  An environment to run the model in: the result codes of sqlite3.h, and a library that
  compiles the text up to the first semicolon: to no statement and an error when the
  text starts with \<open>!\<close>, to statement 7 when it starts with \<open>#\<close>, and to statement 1
  otherwise. It formats a text as the text itself, and has no memory to format the
  empty text; \<open>:id\<close> is the one parameter it knows. A step of statement 7 fails (\<open>SQLITE_CONSTRAINT\<close>), a step of statement 3
  yields \<open>SQLITE_ROW\<close>, and a step of any other statement \<open>SQLITE_DONE\<close>. The library
  refuses to close connection 13 (\<open>SQLITE_BUSY\<close>), to reset or finalize statement 13,
  and to execute \<open>FAIL\<close>.
\<close>

fun demo_result_code :: "world \<Rightarrow> call \<Rightarrow> int" where
  "demo_result_code w (sqlite3_close p) = (if p = Some 13 then 5 else 0)"
| "demo_result_code w (sqlite3_exec p sql) = (if sql = Some ''FAIL'' then 1 else 0)"
| "demo_result_code w (sqlite3_prepare_v2 p sql n) = (if take 1 sql = ''!'' then 1 else 0)"
| "demo_result_code w (sqlite3_step p) =
     (if p = None then 21 else if p = Some 7 then 19 else if p = Some 3 then 100 else 101)"
| "demo_result_code w (sqlite3_reset p) = (if p = Some 13 then 1 else 0)"
| "demo_result_code w (sqlite3_finalize p) = (if p = Some 13 then 1 else 0)"
| "demo_result_code w c = 0"

fun demo_ppStmt :: "world \<Rightarrow> call \<Rightarrow> ptr" where
  "demo_ppStmt w (sqlite3_prepare_v2 p sql n) =
     (if take 1 sql = ''!'' then None else if take 1 sql = ''#'' then Some 7 else Some 1)"
| "demo_ppStmt w c = None"

fun demo_pzTail :: "world \<Rightarrow> call \<Rightarrow> nat" where
  "demo_pzTail w (sqlite3_prepare_v2 p sql n) =
     min (length sql) (Suc (length (takeWhile (\<lambda>c. c \<noteq> CHR '';'') sql)))"
| "demo_pzTail w c = 0"

definition demo_column_name :: "world \<Rightarrow> ptr \<Rightarrow> 32 word \<Rightarrow> string" where
  "demo_column_name w p idx =
     (if idx = 0 then ''id'' else if idx = 1 then ''name'' else if idx = 2 then ''id''
      else [])"

definition demo :: env where
  "demo = \<lparr>SQLITE_OK = 0, SQLITE_ERROR = 1, SQLITE_MISUSE = 21, SQLITE_ROW = 100,
           SQLITE_DONE = 101, SQLITE_DBCONFIG_ENABLE_FKEY = 1002,
           SQLITE_DBCONFIG_ENABLE_TRIGGER = 1003, result_code = demo_result_code,
           ppDb = (\<lambda>w c. Some (length w)), ppStmt = demo_ppStmt, pzTail = demo_pzTail,
           no_tail = (\<lambda>w c. True), null_view = (\<lambda>s. []),
           sqlite3_vmprintf = (\<lambda>sql ap. if sql = [] then None else Some sql),
           sqlite3_bind_parameter_index = (\<lambda>w p name. if name = '':id'' then 1 else 0),
           sqlite3_column_count = (\<lambda>w p. 3), sqlite3_column_name = demo_column_name,
           isspace = (\<lambda>c. c = CHR '' '' \<or> c = CHR 0x0A), moved_from = (\<lambda>f. None),
           self_moved = (\<lambda>f. f), NDEBUG = True\<rparr>"

text \<open>The same environment built with assertions.\<close>

definition demo_debug :: env where
  "demo_debug = demo\<lparr>NDEBUG := False\<rparr>"

definition demo_database :: "nat \<Rightarrow> database" where
  "demo_database h = \<lparr>database_db = Some h, database_bh = None, database_ch = None,
                       database_rh = None, database_uh = None, database_ah = None\<rparr>"

text \<open>A store with two connected databases, at the addresses 0 and 1.\<close>

definition demo_heap :: heap where
  "demo_heap = (\<lambda>a. (demo_database 0)\<lparr>database_db := None\<rparr>)
                 (0 := demo_database 7, 1 := demo_database 8)"

section \<open>Moving a database hands its connection over\<close>












section \<open>Executing a batch\<close>

lemma statement_ctor_empty:
  "statement_ctor E s db [] w = Return (\<lparr>statement_db = db, statement_stmt = None\<rparr>, w)"
  by (simp add: statement_ctor_def)

lemma batch_execute_next_empty:
  "ltrim E (batch_state b) = [] \<Longrightarrow>
     batch_execute_next E s b w = Return (Inr False, b\<lparr>batch_state := []\<rparr>, w)"
  by (simp add: batch_execute_next_def)

lemma batch_execute_next_more:
  assumes "batch_execute_next E s b w = Return (Inr has, b1, w1)"
  shows "has = (batch_state b1 \<noteq> [])"
    and "ltrim E (batch_state b) \<noteq> [] \<Longrightarrow>
           batch_state b1 = drop (pzTail E w (sqlite3_prepare_v2 (database_db (s (batch_db b)))
              (ltrim E (batch_state b)) (to_int (int (length (ltrim E (batch_state b)))))))
              (ltrim E (batch_state b))"
  using assms
  by (auto simp add: batch_execute_next_def statement_ctor_empty statement_prepare_def
      statement_finish_def statement_step_def leave_scope_def statement_dtor_def native_def
      sqlite_call_def
      Let_def split: if_splits outcome.splits option.splits sum.splits prod.splits)

lemma batch_execute_next_error:
  assumes "batch_execute_next E s b w = Return (Inl e, b1, w1)"
  shows "batch_state b1 = ltrim E (batch_state b)"
  using assms
  by (auto simp add: batch_execute_next_def statement_ctor_empty statement_prepare_def
      statement_finish_def statement_step_def leave_scope_def statement_dtor_def native_def
      sqlite_call_def
      Let_def split: if_splits outcome.splits option.splits sum.splits prod.splits)

lemma batch_execute_next_world:
  assumes "ltrim E (batch_state b) \<noteq> []"
    and "c = sqlite3_prepare_v2 (database_db (s (batch_db b))) (ltrim E (batch_state b))
              (to_int (int (length (ltrim E (batch_state b)))))"
  shows "\<exists>added. outcome_world (\<lambda>(r, b, w). w) (batch_execute_next E s b w) = w @ c # added
     \<and> filter is_prepare added = []
     \<and> (filter is_step added = [] \<or> filter is_step added = [sqlite3_step (ppStmt E w c)])"
  using assms
  by (auto simp add: batch_execute_next_def statement_ctor_empty statement_prepare_def
      statement_finish_def statement_step_def leave_scope_def statement_dtor_def native_def
      sqlite_call_def
      outcome_world_def Let_def split: if_splits outcome.splits option.splits sum.splits
      prod.splits)

lemma batch_execute_all_consumed:
  assumes returns: "batch_execute_all E s b w = Some y"
  shows "\<forall>b1 w1. y = Return (None, b1, w1) \<longrightarrow> batch_state b1 = []"
proof (rule batch_execute_all.raw_induct
    [where P = "\<lambda>E s b w y. \<forall>b1 w1. y = Return (None, b1, w1) \<longrightarrow> batch_state b1 = []",
     OF _ returns])
  fix execute_all E s b w y
  assume IH: "\<And>E s b w y. execute_all E s b w = Some y \<Longrightarrow>
      \<forall>b1 w1. y = Return (None, b1, w1) \<longrightarrow> batch_state b1 = []"
    and round: "(case batch_execute_next E s b w of
        Abort w1 \<Rightarrow> Some (Abort w1)
      | Throw w1 \<Rightarrow> Some (Throw w1)
      | Return (r, b1, w1) \<Rightarrow>
          (case r of
             Inl e \<Rightarrow> Some (Return (Some e, b1, w1))
           | Inr hasSmth \<Rightarrow>
               if hasSmth then execute_all E s b1 w1
               else Some (Return (None, b1, w1)))) = Some y"
  show "\<forall>b1 w1. y = Return (None, b1, w1) \<longrightarrow> batch_state b1 = []"
  proof (cases "batch_execute_next E s b w")
    case (Return x)
    obtain r b2 w2 where x: "x = (r, b2, w2)" by (cases x)
    show ?thesis
    proof (cases r)
      case (Inl e)
      with round Return x show ?thesis by auto
    next
      case (Inr has)
      show ?thesis
      proof (cases has)
        case True
        with round Return x Inr have "execute_all E s b2 w2 = Some y" by simp
        then show ?thesis by (rule IH)
      next
        case False
        with Return x Inr have "batch_state b2 = []"
          using batch_execute_next_more(1) [of E s b w False b2 w2] by simp
        with round Return x Inr False show ?thesis by auto
      qed
    qed
  next
    case (Abort x)
    with round show ?thesis by auto
  next
    case (Throw x)
    with round show ?thesis by auto
  qed
qed

lemma batch_execute_all_returns:
  assumes "progress E"
  shows "batch_execute_all E s b w \<noteq> None"
proof (induction "length (batch_state b)" arbitrary: b w rule: less_induct)
  case less
  show ?case
  proof (cases "batch_execute_next E s b w")
    case (Return x)
    obtain r b2 w2 where x: "x = (r, b2, w2)" by (cases x)
    show ?thesis
    proof (cases r)
      case (Inl e)
      with Return x show ?thesis by (simp add: batch_execute_all.simps)
    next
      case (Inr has)
      show ?thesis
      proof (cases has)
        case False
        with Return x Inr show ?thesis by (simp add: batch_execute_all.simps)
      next
        case True
        let ?text = "ltrim E (batch_state b)"
        from Return x Inr True have run: "batch_execute_next E s b w = Return (Inr True, b2, w2)"
          by simp
        have nonempty: "?text \<noteq> []"
        proof
          assume "?text = []"
          from batch_execute_next_empty [OF this, of s w] run show False by simp
        qed
        with nonempty assms have "0 < pzTail E w (sqlite3_prepare_v2 (database_db (s (batch_db b)))
              ?text (to_int (int (length ?text))))"
          by (simp add: progress_def)
        moreover from nonempty have "0 < length ?text" by simp
        ultimately have "length (batch_state b2) < length ?text"
          using batch_execute_next_more(2) [OF run nonempty] by simp
        also have "length ?text \<le> length (batch_state b)"
          by (simp add: ltrim_def length_dropWhile_le)
        finally have "batch_execute_all E s b2 w2 \<noteq> None" by (rule less)
        with run show ?thesis by (simp add: batch_execute_all.simps)
      qed
    qed
  next
    case (Abort x)
    then show ?thesis by (simp add: batch_execute_all.simps)
  next
    case (Throw x)
    then show ?thesis by (simp add: batch_execute_all.simps)
  qed
qed

lemma batch_execute_next_success:
  assumes "batch_execute_next E s b w = Return (Inr has, b1, w1)"
    and "ltrim E (batch_state b) \<noteq> []"
    and "c = sqlite3_prepare_v2 (database_db (s (batch_db b))) (ltrim E (batch_state b))
              (to_int (int (length (ltrim E (batch_state b)))))"
  shows "result_code E w c = SQLITE_OK E"
    and "filter is_step (drop (length w) w1) = [sqlite3_step (ppStmt E w c)]"
  using assms
  by (auto simp add: batch_execute_next_def statement_ctor_empty statement_prepare_def
      statement_finish_def statement_step_def leave_scope_def statement_dtor_def native_def
      sqlite_call_def
      sqlite_call_def Let_def split: if_splits outcome.splits option.splits sum.splits
      prod.splits)

text \<open>
  Claim C2. \<open>batch::execute_next\<close> first drops the leading white space of \<open>state()\<close>. When
  nothing is left it returns false and makes no native call. Otherwise it compiles the
  text once, and steps at most once, the statement that compilation gave: it executes at
  most one statement, the first of the text. When it returns a boolean, that boolean is
  true exactly when \<open>state()\<close> is not empty afterwards, and \<open>state()\<close> is the text after
  the compiled statement (the tail the library reported), the compilation succeeded and
  the statement was stepped exactly once. When it returns an error the state is the
  trimmed text, not advanced. \<open>batch::execute_all\<close> calls \<open>execute_next\<close> again as long as
  it returns true, returns \<open>None\<close> when it returns false (the state is empty then), and
  returns the error of the first call that fails. With a library that moves the tail
  forward whenever it compiles a text that is not empty, \<open>execute_all\<close> returns.
\<close>

theorem batch_execute_next_one_statement:
  assumes trim: "trimmed = ltrim E (batch_state b)"
    and c: "c = sqlite3_prepare_v2 (database_db (s (batch_db b))) trimmed (to_int (int (length trimmed)))"
  shows
    "(trimmed = [] \<longrightarrow> batch_execute_next E s b w = Return (Inr False, b\<lparr>batch_state := []\<rparr>, w))
     \<and> (trimmed \<noteq> [] \<longrightarrow>
          (\<exists>added. outcome_world (\<lambda>(r, b, w). w) (batch_execute_next E s b w) = w @ c # added
             \<and> filter is_prepare added = []
             \<and> (filter is_step added = []
                 \<or> filter is_step added = [sqlite3_step (ppStmt E w c)])))
     \<and> (batch_execute_next E s b w = Return (Inr has, b1, w1) \<longrightarrow>
          has = (batch_state b1 \<noteq> [])
          \<and> (trimmed \<noteq> [] \<longrightarrow>
               batch_state b1 = drop (pzTail E w c) trimmed
               \<and> result_code E w c = SQLITE_OK E
               \<and> filter is_step (drop (length w) w1) = [sqlite3_step (ppStmt E w c)]))
     \<and> (batch_execute_next E s b w = Return (Inl e, b1, w1) \<longrightarrow> batch_state b1 = trimmed)
     \<and> batch_execute_all E s b w
         = (case batch_execute_next E s b w of
              Abort w1 \<Rightarrow> Some (Abort w1)
            | Throw w1 \<Rightarrow> Some (Throw w1)
            | Return (r, b1, w1) \<Rightarrow>
                (case r of
                   Inl e \<Rightarrow> Some (Return (Some e, b1, w1))
                 | Inr hasSmth \<Rightarrow>
                     if hasSmth then batch_execute_all E s b1 w1
                     else Some (Return (None, b1, w1))))
     \<and> (batch_execute_all E s b w = Some (Return (None, b2, w2)) \<longrightarrow> batch_state b2 = [])
     \<and> (progress E \<longrightarrow> batch_execute_all E s b w \<noteq> None)"
proof -
  have empty: "trimmed = [] \<longrightarrow>
      batch_execute_next E s b w = Return (Inr False, b\<lparr>batch_state := []\<rparr>, w)"
    using trim by (simp add: batch_execute_next_empty)
  have one: "trimmed \<noteq> [] \<longrightarrow>
      (\<exists>added. outcome_world (\<lambda>(r, b, w). w) (batch_execute_next E s b w) = w @ c # added
         \<and> filter is_prepare added = []
         \<and> (filter is_step added = [] \<or> filter is_step added = [sqlite3_step (ppStmt E w c)]))"
    using batch_execute_next_world [of E b c s w] trim c by blast
  have success: "batch_execute_next E s b w = Return (Inr has, b1, w1) \<longrightarrow>
      has = (batch_state b1 \<noteq> [])
      \<and> (trimmed \<noteq> [] \<longrightarrow>
           batch_state b1 = drop (pzTail E w c) trimmed
           \<and> result_code E w c = SQLITE_OK E
           \<and> filter is_step (drop (length w) w1) = [sqlite3_step (ppStmt E w c)])"
    using batch_execute_next_more [of E s b w has b1 w1]
      batch_execute_next_success [of E s b w has b1 w1 c] trim c
    by blast
  have failure: "batch_execute_next E s b w = Return (Inl e, b1, w1) \<longrightarrow> batch_state b1 = trimmed"
    using batch_execute_next_error [of E s b w e b1 w1] trim by blast
  have consumed: "batch_execute_all E s b w = Some (Return (None, b2, w2)) \<longrightarrow>
      batch_state b2 = []"
    using batch_execute_all_consumed [of E s b w "Return (None, b2, w2)"] by blast
  have returns: "progress E \<longrightarrow> batch_execute_all E s b w \<noteq> None"
    using batch_execute_all_returns [of E s b w] by blast
  from empty one success failure consumed returns show ?thesis
    using batch_execute_all.simps [of E s b w] by blast
qed

theorem batch_execute_next_one_statement_witness:
  "progress demo
   \<and> batch_execute_next demo demo_heap
         \<lparr>batch_db = 0, batch_data = None, batch_state = ''  '', batch_orig = '' A; ''\<rparr> []
       = Return (Inr False,
           \<lparr>batch_db = 0, batch_data = None, batch_state = [], batch_orig = '' A; ''\<rparr>, [])
   \<and> batch_execute_next demo demo_heap
         \<lparr>batch_db = 0, batch_data = None, batch_state = ''#B;C'', batch_orig = '' A;#B;C''\<rparr> []
       = Return (Inl 19,
           \<lparr>batch_db = 0, batch_data = None, batch_state = ''#B;C'', batch_orig = '' A;#B;C''\<rparr>,
           [sqlite3_prepare_v2 (Some 7) ''#B;C'' 4, sqlite3_step (Some 7),
            sqlite3_reset (Some 7), sqlite3_finalize (Some 7)])
   \<and> batch_execute_next demo demo_heap
         \<lparr>batch_db = 0, batch_data = None, batch_state = '' A; B; '', batch_orig = '' A; B; ''\<rparr> []
       = Return (Inr True,
           \<lparr>batch_db = 0, batch_data = None, batch_state = '' B; '', batch_orig = '' A; B; ''\<rparr>,
           [sqlite3_prepare_v2 (Some 7) ''A; B; '' 6, sqlite3_step (Some 1),
            sqlite3_reset (Some 1), sqlite3_finalize (Some 1)])
   \<and> batch_execute_all demo demo_heap
         \<lparr>batch_db = 0, batch_data = None, batch_state = '' A; B; '', batch_orig = '' A; B; ''\<rparr> []
       = Some (Return (None,
           \<lparr>batch_db = 0, batch_data = None, batch_state = [], batch_orig = '' A; B; ''\<rparr>,
           [sqlite3_prepare_v2 (Some 7) ''A; B; '' 6, sqlite3_step (Some 1),
            sqlite3_reset (Some 1), sqlite3_finalize (Some 1),
            sqlite3_prepare_v2 (Some 7) ''B; '' 3, sqlite3_step (Some 1),
            sqlite3_reset (Some 1), sqlite3_finalize (Some 1)]))
   \<and> batch_execute_all demo demo_heap
         \<lparr>batch_db = 0, batch_data = None, batch_state = '' A;#B;C'', batch_orig = '' A;#B;C''\<rparr> []
       = Some (Return (Some 19,
           \<lparr>batch_db = 0, batch_data = None, batch_state = ''#B;C'', batch_orig = '' A;#B;C''\<rparr>,
           [sqlite3_prepare_v2 (Some 7) ''A;#B;C'' 6, sqlite3_step (Some 1),
            sqlite3_reset (Some 1), sqlite3_finalize (Some 1),
            sqlite3_prepare_v2 (Some 7) ''#B;C'' 4, sqlite3_step (Some 7),
            sqlite3_reset (Some 7), sqlite3_finalize (Some 7)]))"
proof -
  let ?blank = "\<lparr>batch_db = 0, batch_data = None, batch_state = ''  '', batch_orig = '' A; ''\<rparr>"
  let ?bad = "\<lparr>batch_db = 0, batch_data = None, batch_state = ''#B;C'',
                batch_orig = '' A;#B;C''\<rparr>"
  let ?two = "\<lparr>batch_db = 0, batch_data = None, batch_state = '' A; B; '',
                batch_orig = '' A; B; ''\<rparr>"
  note defs = batch_execute_next_def statement_ctor_def statement_prepare_def
    statement_finish_def statement_step_def leave_scope_def statement_dtor_def native_def
      sqlite_call_def
    sqlite_call_def ltrim_def demo_def demo_heap_def demo_database_def to_int_def
  have library: "progress demo"
    by (simp add: progress_def demo_def)
  have blank: "[] = ltrim demo (batch_state ?blank)"
    and two: "''A; B; '' = ltrim demo (batch_state ?two)"
    by (simp_all add: ltrim_def demo_def)
  have compile_blank: "sqlite3_prepare_v2 (Some 7) [] 0
      = sqlite3_prepare_v2 (database_db (demo_heap (batch_db ?blank))) []
          (to_int (int (length ([] :: string))))"
    and compile_two: "sqlite3_prepare_v2 (Some 7) ''A; B; '' 6
      = sqlite3_prepare_v2 (database_db (demo_heap (batch_db ?two))) ''A; B; ''
          (to_int (int (length ''A; B; '')))"
    by (simp_all add: demo_heap_def demo_database_def to_int_def)
  have "batch_execute_next demo demo_heap ?blank []
      = Return (Inr False, ?blank\<lparr>batch_state := []\<rparr>, [])"
    using batch_execute_next_one_statement
        [where E = demo and s = demo_heap and b = ?blank and w = "[]", OF blank compile_blank]
    by blast
  moreover have "batch_execute_all demo demo_heap ?two [] \<noteq> None"
    using batch_execute_next_one_statement
        [where E = demo and s = demo_heap and b = ?two and w = "[]", OF two compile_two]
      library
    by blast
  moreover have "batch_execute_next demo demo_heap ?bad []
      = Return (Inl 19, ?bad,
          [sqlite3_prepare_v2 (Some 7) ''#B;C'' 4, sqlite3_step (Some 7),
           sqlite3_reset (Some 7), sqlite3_finalize (Some 7)])"
    by (simp add: defs)
  moreover have "batch_execute_next demo demo_heap ?two []
      = Return (Inr True, ?two\<lparr>batch_state := '' B; ''\<rparr>,
          [sqlite3_prepare_v2 (Some 7) ''A; B; '' 6, sqlite3_step (Some 1),
           sqlite3_reset (Some 1), sqlite3_finalize (Some 1)])"
    by (simp add: defs)
  moreover have "batch_execute_all demo demo_heap ?two []
      = Some (Return (None, ?two\<lparr>batch_state := []\<rparr>,
          [sqlite3_prepare_v2 (Some 7) ''A; B; '' 6, sqlite3_step (Some 1),
           sqlite3_reset (Some 1), sqlite3_finalize (Some 1),
           sqlite3_prepare_v2 (Some 7) ''B; '' 3, sqlite3_step (Some 1),
           sqlite3_reset (Some 1), sqlite3_finalize (Some 1)]))"
    by (simp add: batch_execute_all.simps defs)
  moreover have "batch_execute_all demo demo_heap
        \<lparr>batch_db = 0, batch_data = None, batch_state = '' A;#B;C'', batch_orig = '' A;#B;C''\<rparr> []
      = Some (Return (Some 19, ?bad,
          [sqlite3_prepare_v2 (Some 7) ''A;#B;C'' 6, sqlite3_step (Some 1),
           sqlite3_reset (Some 1), sqlite3_finalize (Some 1),
           sqlite3_prepare_v2 (Some 7) ''#B;C'' 4, sqlite3_step (Some 7),
           sqlite3_reset (Some 7), sqlite3_finalize (Some 7)]))"
    by (simp add: batch_execute_all.simps defs)
  ultimately show ?thesis
    using library by simp
qed

section \<open>Executing a statement\<close>

text \<open>
  Claim C3. \<open>statement::exec\<close> returns \<open>SQLITE_MISUSE\<close>, with no native call, when the
  statement has no prepared handle. Otherwise it resets the statement first; when the
  reset fails it returns the reset's error and no step is performed. Otherwise it
  performs exactly one step, and returns \<open>None\<close> exactly when the step yields
  \<open>SQLITE_DONE\<close>, \<open>SQLITE_ROW\<close> or \<open>SQLITE_OK\<close>, and the step's result code as the error
  otherwise.
\<close>

theorem statement_exec_cases:
  "(statement_stmt st = None \<longrightarrow> statement_exec E st w = (Some (SQLITE_MISUSE E), w))
   \<and> (statement_stmt st \<noteq> None
        \<and> result_code E w (sqlite3_reset (statement_stmt st)) \<noteq> SQLITE_OK E
        \<longrightarrow> statement_exec E st w
              = (Some (result_code E w (sqlite3_reset (statement_stmt st))),
                 w @ [sqlite3_reset (statement_stmt st)]))
   \<and> (statement_stmt st \<noteq> None
        \<and> result_code E w (sqlite3_reset (statement_stmt st)) = SQLITE_OK E
        \<and> r = result_code E (w @ [sqlite3_reset (statement_stmt st)])
                  (sqlite3_step (statement_stmt st))
        \<longrightarrow> snd (statement_exec E st w)
              = w @ [sqlite3_reset (statement_stmt st), sqlite3_step (statement_stmt st)]
            \<and> (fst (statement_exec E st w) = None)
              = (r = SQLITE_DONE E \<or> r = SQLITE_ROW E \<or> r = SQLITE_OK E)
            \<and> (fst (statement_exec E st w) \<noteq> None \<longrightarrow> fst (statement_exec E st w) = Some r))"
  by (simp add: statement_exec_def statement_reset_def native_def sqlite_call_def)

theorem statement_exec_cases_witness:
  "statement_exec demo \<lparr>statement_db = 0, statement_stmt = None\<rparr> [] = (Some 21, [])
   \<and> statement_exec demo \<lparr>statement_db = 0, statement_stmt = Some 13\<rparr> []
       = (Some 1, [sqlite3_reset (Some 13)])
   \<and> statement_exec demo \<lparr>statement_db = 0, statement_stmt = Some 3\<rparr> []
       = (None, [sqlite3_reset (Some 3), sqlite3_step (Some 3)])
   \<and> statement_exec demo \<lparr>statement_db = 0, statement_stmt = Some 7\<rparr> []
       = (Some 19, [sqlite3_reset (Some 7), sqlite3_step (Some 7)])"
  using statement_exec_cases
      [where st = "\<lparr>statement_db = 0, statement_stmt = None\<rparr>" and E = demo and w = "[]"]
    statement_exec_cases
      [where st = "\<lparr>statement_db = 0, statement_stmt = Some 13\<rparr>" and E = demo and w = "[]"]
    statement_exec_cases
      [where st = "\<lparr>statement_db = 0, statement_stmt = Some 3\<rparr>" and E = demo and w = "[]"
         and r = 100]
    statement_exec_cases
      [where st = "\<lparr>statement_db = 0, statement_stmt = Some 7\<rparr>" and E = demo and w = "[]"
         and r = 19]
  by (simp add: demo_def prod_eq_iff)

section \<open>Finishing a statement\<close>

text \<open>
  Claim C4. Destroying a statement runs \<open>finish\<close>. \<open>finish\<close> on a statement that holds a
  handle resets and finalizes that handle and, when it returns, has set the handle to
  null; it returns the translated result of the finalize (in a build with assertions a
  failed finalize aborts instead). \<open>finish\<close> on a null handle returns \<open>None\<close>, makes no
  native call and changes nothing. So \<open>finish\<close> is idempotent: after any call of
  \<open>finish\<close> that returns, a second call returns \<open>None\<close> and the handle remains null.
\<close>

theorem statement_finish_idempotent:
  "(statement_stmt st = None \<longrightarrow>
      statement_finish E st w = Return (None, st, w) \<and> statement_dtor E st w = Return w)
   \<and> (statement_stmt st \<noteq> None
        \<and> w2 = w @ [sqlite3_reset (statement_stmt st), sqlite3_finalize (statement_stmt st)]
        \<and> r = sqlite_call E (result_code E (w @ [sqlite3_reset (statement_stmt st)])
                  (sqlite3_finalize (statement_stmt st)))
        \<longrightarrow> statement_finish E st w
              = (if r \<noteq> None \<and> \<not> NDEBUG E then Abort w2
                 else Return (r, st\<lparr>statement_stmt := None\<rparr>, w2))
            \<and> statement_dtor E st w
              = (if r \<noteq> None \<and> \<not> NDEBUG E then Abort w2 else Return w2))
   \<and> (statement_finish E st w = Return (r1, st1, w1)
        \<longrightarrow> statement_stmt st1 = None
            \<and> statement_finish E st1 w1 = Return (None, st1, w1))"
  by (auto simp add: statement_finish_def statement_dtor_def native_def Let_def
      split: if_splits)

theorem statement_finish_idempotent_witness:
  "statement_finish demo \<lparr>statement_db = 0, statement_stmt = None\<rparr> []
     = Return (None, \<lparr>statement_db = 0, statement_stmt = None\<rparr>, [])
   \<and> statement_finish demo \<lparr>statement_db = 0, statement_stmt = Some 1\<rparr> []
     = Return (None, \<lparr>statement_db = 0, statement_stmt = None\<rparr>,
               [sqlite3_reset (Some 1), sqlite3_finalize (Some 1)])
   \<and> statement_finish demo \<lparr>statement_db = 0, statement_stmt = None\<rparr>
       [sqlite3_reset (Some 1), sqlite3_finalize (Some 1)]
     = Return (None, \<lparr>statement_db = 0, statement_stmt = None\<rparr>,
               [sqlite3_reset (Some 1), sqlite3_finalize (Some 1)])
   \<and> statement_dtor demo \<lparr>statement_db = 0, statement_stmt = Some 1\<rparr> []
     = Return [sqlite3_reset (Some 1), sqlite3_finalize (Some 1)]
   \<and> statement_finish demo \<lparr>statement_db = 0, statement_stmt = Some 13\<rparr> []
     = Return (Some 1, \<lparr>statement_db = 0, statement_stmt = None\<rparr>,
               [sqlite3_reset (Some 13), sqlite3_finalize (Some 13)])
   \<and> statement_finish demo_debug \<lparr>statement_db = 0, statement_stmt = Some 13\<rparr> []
     = Abort [sqlite3_reset (Some 13), sqlite3_finalize (Some 13)]"
  using statement_finish_idempotent
      [where st = "\<lparr>statement_db = 0, statement_stmt = None\<rparr>" and E = demo and w = "[]"]
    statement_finish_idempotent
      [where st = "\<lparr>statement_db = 0, statement_stmt = Some 1\<rparr>" and E = demo and w = "[]"
         and ?w2.0 = "[sqlite3_reset (Some 1), sqlite3_finalize (Some 1)]" and r = None
         and ?r1.0 = None and ?st1.0 = "\<lparr>statement_db = 0, statement_stmt = None\<rparr>"
         and ?w1.0 = "[sqlite3_reset (Some 1), sqlite3_finalize (Some 1)]"]
    statement_finish_idempotent
      [where st = "\<lparr>statement_db = 0, statement_stmt = Some 13\<rparr>" and E = demo and w = "[]"
         and ?w2.0 = "[sqlite3_reset (Some 13), sqlite3_finalize (Some 13)]" and r = "Some 1"]
    statement_finish_idempotent
      [where st = "\<lparr>statement_db = 0, statement_stmt = Some 13\<rparr>" and E = demo_debug
         and w = "[]" and ?w2.0 = "[sqlite3_reset (Some 13), sqlite3_finalize (Some 13)]"
         and r = "Some 1"]
  by (simp add: demo_def demo_debug_def sqlite_call_def)

section \<open>Executing a selecter\<close>

text \<open>
  Claim C5. For a selecter that holds a prepared statement, \<open>selecter::exec\<close> makes one
  native call, the reset of that statement, and returns the reset's translated result:
  it does not finalize the statement and does not touch the handle, so a following
  \<open>step\<close> or \<open>next\<close> steps the same compiled statement, without preparing it again.
\<close>

theorem selecter_exec_resets:
  "statement_stmt st = Some p \<Longrightarrow>
     selecter_exec E st w
       = (sqlite_call E (result_code E w (sqlite3_reset (Some p))), w @ [sqlite3_reset (Some p)])
     \<and> sqlite3_finalize (Some p) \<notin> set (drop (length w) (snd (selecter_exec E st w)))
     \<and> snd (statement_step E st (snd (selecter_exec E st w)))
         = w @ [sqlite3_reset (Some p), sqlite3_step (Some p)]
     \<and> snd (selecter_next E st (snd (selecter_exec E st w)))
         = w @ [sqlite3_reset (Some p), sqlite3_step (Some p)]"
  by (simp add: selecter_exec_def statement_reset_def statement_step_def selecter_next_def
      native_def Let_def split: sum.splits)

theorem selecter_exec_resets_witness:
  "selecter_exec demo \<lparr>statement_db = 0, statement_stmt = Some 3\<rparr> []
     = (None, [sqlite3_reset (Some 3)])
   \<and> selecter_next demo \<lparr>statement_db = 0, statement_stmt = Some 3\<rparr> [sqlite3_reset (Some 3)]
     = (True, [sqlite3_reset (Some 3), sqlite3_step (Some 3)])"
  using selecter_exec_resets
      [where st = "\<lparr>statement_db = 0, statement_stmt = Some 3\<rparr>" and p = 3 and E = demo
         and w = "[]"]
  by (simp add: demo_def sqlite_call_def selecter_next_def statement_step_def native_def)

section \<open>Error-code translation is exact\<close>



section \<open>Disconnecting\<close>

text \<open>
  Claim C7. \<open>disconnect\<close> returns \<open>None\<close> and changes nothing, with no native call, when
  no handle is held. When a handle is held it closes it, once: if the close succeeds the
  handle becomes null and the database is no longer connected; if the close fails the
  error is returned, the handle is left as it was and the database is still connected.
\<close>

theorem database_disconnect_cases:
  "(database_db d = None \<longrightarrow> database_disconnect E d w = (None, d, w))
   \<and> (database_db d \<noteq> None \<and> result_code E w (sqlite3_close (database_db d)) = SQLITE_OK E
        \<longrightarrow> database_disconnect E d w
              = (None, d\<lparr>database_db := None\<rparr>, w @ [sqlite3_close (database_db d)])
            \<and> \<not> database_is_connected (fst (snd (database_disconnect E d w))))
   \<and> (database_db d \<noteq> None \<and> result_code E w (sqlite3_close (database_db d)) \<noteq> SQLITE_OK E
        \<longrightarrow> database_disconnect E d w
              = (Some (result_code E w (sqlite3_close (database_db d))), d,
                 w @ [sqlite3_close (database_db d)])
            \<and> database_is_connected (fst (snd (database_disconnect E d w))))"
  by (simp add: database_disconnect_def native_def sqlite_call_def database_is_connected_def)

theorem database_disconnect_cases_witness:
  "database_disconnect demo ((demo_database 1)\<lparr>database_db := None\<rparr>) []
     = (None, (demo_database 1)\<lparr>database_db := None\<rparr>, [])
   \<and> database_disconnect demo (demo_database 1) []
     = (None, (demo_database 1)\<lparr>database_db := None\<rparr>, [sqlite3_close (Some 1)])
   \<and> database_disconnect demo (demo_database 13) []
     = (Some 5, demo_database 13, [sqlite3_close (Some 13)])
   \<and> database_is_connected (fst (snd (database_disconnect demo (demo_database 13) [])))"
  using database_disconnect_cases [of "(demo_database 1)\<lparr>database_db := None\<rparr>" demo "[]"]
    database_disconnect_cases [of "demo_database 1" demo "[]"]
    database_disconnect_cases [of "demo_database 13" demo "[]"]
  by (simp add: demo_def demo_database_def database_is_connected_def)

section \<open>Preparing and resetting a batch\<close>

lemma batch_execute_next_fields:
  "batch_execute_next E s b w = Return (r, b1, w1) \<Longrightarrow>
     batch_db b1 = batch_db b \<and> batch_data b1 = batch_data b \<and> batch_orig b1 = batch_orig b"
  by (auto simp add: batch_execute_next_def leave_scope_def Let_def
      split: if_splits outcome.splits option.splits sum.splits prod.splits)

lemma batch_execute_next_times_fields:
  "batch_execute_next_times E s n b w = Return (b1, w1) \<Longrightarrow>
     batch_db b1 = batch_db b \<and> batch_data b1 = batch_data b \<and> batch_orig b1 = batch_orig b"
proof (induction n arbitrary: b w)
  case 0
  then show ?case by simp
next
  case (Suc n)
  then show ?case
    by (auto split: outcome.splits dest!: batch_execute_next_fields)
qed

text \<open>
  Claim C8. \<open>batch::prepare(s, fcopy)\<close> always returns \<open>None\<close> and sets both the stored
  original and \<open>state()\<close> to \<open>s\<close>. After any number of calls of \<open>execute_next\<close>,
  \<open>batch::reset\<close> restores \<open>state()\<close> to the whole text \<open>s\<close>: the batch is again as
  \<open>prepare\<close> left it.
\<close>

theorem batch_reset_round_trip:
  "fst (batch_prepare b stmt fcopy) = None
   \<and> batch_orig (snd (batch_prepare b stmt fcopy)) = stmt
   \<and> batch_state_view (snd (batch_prepare b stmt fcopy)) = stmt
   \<and> (batch_execute_next_times E s n (snd (batch_prepare b stmt fcopy)) w = Return (b1, w1)
        \<longrightarrow> batch_state_view (batch_reset b1) = stmt
            \<and> batch_reset b1 = snd (batch_prepare b stmt fcopy))"
proof -
  let ?p = "snd (batch_prepare b stmt fcopy)"
  have prepared: "fst (batch_prepare b stmt fcopy) = None" "batch_orig ?p = stmt"
    "batch_state ?p = stmt"
    by (simp_all add: batch_prepare_def Let_def)
  have "batch_reset b1 = ?p" if "batch_execute_next_times E s n ?p w = Return (b1, w1)"
  proof -
    from batch_execute_next_times_fields [OF that]
    have "batch_db b1 = batch_db ?p" "batch_data b1 = batch_data ?p"
      "batch_orig b1 = batch_orig ?p"
      by simp_all
    with prepared show ?thesis
      by (simp add: batch_reset_def)
  qed
  with prepared show ?thesis
    by (simp add: batch_state_view_def)
qed

theorem batch_reset_round_trip_witness:
  "batch_execute_next_times demo demo_heap 2
       (snd (batch_prepare (batch_ctor 0) '' A; B;'' nocopy)) []
     = Return (\<lparr>batch_db = 0, batch_data = Some '' A; B;'', batch_state = [],
                 batch_orig = '' A; B;''\<rparr>,
         [sqlite3_prepare_v2 (Some 7) ''A; B;'' 5, sqlite3_step (Some 1),
          sqlite3_reset (Some 1), sqlite3_finalize (Some 1),
          sqlite3_prepare_v2 (Some 7) ''B;'' 2, sqlite3_step (Some 1),
          sqlite3_reset (Some 1), sqlite3_finalize (Some 1)])
   \<and> batch_state_view (batch_reset \<lparr>batch_db = 0, batch_data = Some '' A; B;'',
         batch_state = [], batch_orig = '' A; B;''\<rparr>) = '' A; B;''"
  using batch_reset_round_trip
      [where b = "batch_ctor 0" and stmt = "'' A; B;''" and fcopy = nocopy and E = demo
         and s = demo_heap and n = 2 and w = "[]"]
  by (simp add: batch_prepare_def batch_ctor_def batch_execute_next_def statement_ctor_def
      statement_prepare_def statement_finish_def statement_step_def leave_scope_def
      statement_dtor_def native_def sqlite_call_def ltrim_def demo_def demo_heap_def
      demo_database_def to_int_def batch_reset_def batch_state_view_def numeral_2_eq_2)

section \<open>Ending a transaction\<close>

lemma transaction_commit_world:
  "transaction_commit E s t w = (r, t1, w1) \<Longrightarrow>
     transaction_db t1 = None
     \<and> (case transaction_db t of
          None \<Rightarrow> w1 = w \<and> t1 = t \<and> r = Some (SQLITE_MISUSE E)
        | Some db \<Rightarrow> w1 = w @ [sqlite3_exec (database_db (s db)) (Some ''COMMIT'')])"
  by (auto simp add: transaction_commit_def database_commit_def database_execute_def native_def
      split: option.splits)

lemma transaction_rollback_world:
  "transaction_rollback E s t w = (r, t1, w1) \<Longrightarrow>
     transaction_db t1 = None
     \<and> (case transaction_db t of
          None \<Rightarrow> w1 = w \<and> t1 = t \<and> r = Some (SQLITE_MISUSE E)
        | Some db \<Rightarrow> w1 = w @ [sqlite3_exec (database_db (s db)) (Some ''ROLLBACK'')])"
  by (auto simp add: transaction_rollback_def database_rollback_def database_execute_def
      native_def split: option.splits)

lemma transaction_calls_finished:
  "transaction_db t = None \<Longrightarrow> transaction_calls E s cs t w = (t, w)"
  by (induction cs) (auto simp add: transaction_commit_def transaction_rollback_def
      split: transaction_call.splits)

lemma transaction_calls_world:
  assumes run: "transaction_calls E s cs t w = (t1, w1)"
  shows "\<exists>added. w1 = w @ added
       \<and> (if transaction_db t1 = None then length (filter terminating added) \<le> 1
          else added = [])"
proof (cases cs)
  case Nil
  with run show ?thesis by auto
next
  case (Cons c cs')
  obtain r t2 w2 where first:
    "(case c of Commit \<Rightarrow> transaction_commit E s t w | Rollback \<Rightarrow> transaction_rollback E s t w)
       = (r, t2, w2)"
    by (cases "case c of Commit \<Rightarrow> transaction_commit E s t w
                 | Rollback \<Rightarrow> transaction_rollback E s t w") auto
  then have finished: "transaction_db t2 = None"
    and one: "\<exists>added. w2 = w @ added \<and> length (filter terminating added) \<le> 1"
    by (cases c; cases "transaction_db t";
        auto dest!: transaction_commit_world transaction_rollback_world)+
  from run Cons first have "transaction_calls E s cs' t2 w2 = (t1, w1)" by simp
  with finished have "t1 = t2" "w1 = w2" by (simp_all add: transaction_calls_finished)
  with finished one show ?thesis by auto
qed

lemma transaction_dtor_world:
  "outcome_world id (transaction_dtor E s t w)
     = (case transaction_db t of None \<Rightarrow> w
        | Some db \<Rightarrow> w @ [sqlite3_exec (database_db (s db))
                            (Some (if transaction_fcommit t then ''COMMIT'' else ''ROLLBACK''))])"
  by (simp add: transaction_dtor_def outcome_world_def database_commit_def
      database_rollback_def database_execute_def native_def split: option.splits)

lemma transaction_ctor_world:
  "outcome_world snd (transaction_ctor E s db fcommit immediate w)
     = w @ [sqlite3_exec (database_db (s db)) (Some (if immediate then ''BEGIN IMMEDIATE'' else ''BEGIN''))]"
  by (simp add: transaction_ctor_def outcome_world_def database_begin_def Let_def
      database_execute_def native_def)

lemma transaction_lifetime_world:
  "\<exists>added. outcome_world id (transaction_lifetime E s db fcommit immediate cs w)
       = w @ sqlite3_exec (database_db (s db)) (Some (if immediate then ''BEGIN IMMEDIATE'' else ''BEGIN''))
           # added
     \<and> length (filter terminating added) \<le> 1"
proof (cases "transaction_ctor E s db fcommit immediate w")
  case (Return tw)
  obtain t w0 where tw: "tw = (t, w0)" by (cases tw)
  with Return transaction_ctor_world [of E s db fcommit immediate w]
  have w0: "w0 = w @ [sqlite3_exec (database_db (s db))
                        (Some (if immediate then ''BEGIN IMMEDIATE'' else ''BEGIN''))]"
    by (simp add: outcome_world_def)
  obtain t1 w1 where calls: "transaction_calls E s cs t w0 = (t1, w1)"
    by (cases "transaction_calls E s cs t w0")
  from transaction_calls_world [OF calls] obtain added where added: "w1 = w0 @ added"
    "if transaction_db t1 = None then length (filter terminating added) \<le> 1 else added = []"
    by blast
  have life: "transaction_lifetime E s db fcommit immediate cs w = transaction_dtor E s t1 w1"
    using Return tw calls by (simp add: transaction_lifetime_def)
  show ?thesis
  proof (cases "transaction_db t1")
    case None
    with added life w0 transaction_dtor_world [of E s t1 w1] show ?thesis
      by auto
  next
    case (Some a)
    with added have "added = []" by simp
    with Some added life w0 transaction_dtor_world [of E s t1 w1] show ?thesis
      by auto
  qed
next
  case (Abort w0)
  with transaction_ctor_world [of E s db fcommit immediate w] show ?thesis
    by (simp add: transaction_lifetime_def outcome_world_def)
next
  case (Throw w0)
  with transaction_ctor_world [of E s db fcommit immediate w] show ?thesis
    by (simp add: transaction_lifetime_def outcome_world_def)
qed

text \<open>
  Claim C9. Once a transaction is finished (its pointer to the database is null: after
  any call of \<open>commit\<close> or \<open>rollback\<close>, or after a constructor whose \<open>BEGIN\<close> failed and
  that returned), \<open>commit\<close> and \<open>rollback\<close> return \<open>SQLITE_MISUSE\<close> and make no native
  call, and the destructor makes none either. So over its life, from the constructor
  through any calls of \<open>commit\<close> and \<open>rollback\<close> to the destructor, a transaction issues
  at most one \<open>COMMIT\<close> or \<open>ROLLBACK\<close>.
\<close>

theorem transaction_terminates_once:
  "(transaction_db t = None \<longrightarrow>
      transaction_commit E s t w = (Some (SQLITE_MISUSE E), t, w)
      \<and> transaction_rollback E s t w = (Some (SQLITE_MISUSE E), t, w)
      \<and> transaction_dtor E s t w = Return w)
   \<and> transaction_db (fst (snd (transaction_commit E s t w))) = None
   \<and> transaction_db (fst (snd (transaction_rollback E s t w))) = None
   \<and> (transaction_ctor E s db fcommit immediate w = Return (t0, w0)
        \<and> result_code E w (sqlite3_exec (database_db (s db))
              (Some (if immediate then ''BEGIN IMMEDIATE'' else ''BEGIN''))) \<noteq> SQLITE_OK E
        \<longrightarrow> transaction_db t0 = None)
   \<and> length (filter terminating
        (drop (length w)
           (outcome_world id (transaction_lifetime E s db fcommit immediate cs w)))) \<le> 1"
proof -
  have finished: "transaction_db t = None \<longrightarrow>
      transaction_commit E s t w = (Some (SQLITE_MISUSE E), t, w)
      \<and> transaction_rollback E s t w = (Some (SQLITE_MISUSE E), t, w)
      \<and> transaction_dtor E s t w = Return w"
    by (simp add: transaction_commit_def transaction_rollback_def transaction_dtor_def)
  have commit: "transaction_db (fst (snd (transaction_commit E s t w))) = None"
    by (simp add: transaction_commit_def split: option.splits prod.splits)
  have rollback: "transaction_db (fst (snd (transaction_rollback E s t w))) = None"
    by (simp add: transaction_rollback_def split: option.splits prod.splits)
  have ctor: "transaction_ctor E s db fcommit immediate w = Return (t0, w0)
        \<and> result_code E w (sqlite3_exec (database_db (s db))
              (Some (if immediate then ''BEGIN IMMEDIATE'' else ''BEGIN''))) \<noteq> SQLITE_OK E
        \<longrightarrow> transaction_db t0 = None"
    by (auto simp add: transaction_ctor_def database_begin_def database_execute_def native_def
        sqlite_call_def split: if_splits)
  from transaction_lifetime_world [of E s db fcommit immediate cs w]
  have life: "length (filter terminating
        (drop (length w)
           (outcome_world id (transaction_lifetime E s db fcommit immediate cs w)))) \<le> 1"
    by auto
  from finished commit rollback ctor life show ?thesis by blast
qed

theorem transaction_terminates_once_witness:
  "transaction_commit demo demo_heap \<lparr>transaction_db = None, transaction_fcommit = True\<rparr> []
     = (Some 21, \<lparr>transaction_db = None, transaction_fcommit = True\<rparr>, [])
   \<and> transaction_dtor demo demo_heap \<lparr>transaction_db = None, transaction_fcommit = True\<rparr> []
     = Return []
   \<and> transaction_ctor (demo\<lparr>result_code := \<lambda>w c. 5\<rparr>) demo_heap 0 True False []
     = Return (\<lparr>transaction_db = None, transaction_fcommit = True\<rparr>,
               [sqlite3_exec (Some 7) (Some ''BEGIN'')])
   \<and> transaction_lifetime demo demo_heap 0 False False [Commit, Rollback, Commit] []
     = Return [sqlite3_exec (Some 7) (Some ''BEGIN''), sqlite3_exec (Some 7) (Some ''COMMIT'')]"
  using transaction_terminates_once
      [where t = "\<lparr>transaction_db = None, transaction_fcommit = True\<rparr>" and E = demo
         and s = demo_heap and w = "[]" and db = 0 and fcommit = False and immediate = False
         and cs = "[Commit, Rollback, Commit]"]
    transaction_terminates_once
      [where E = "demo\<lparr>result_code := \<lambda>w c. 5\<rparr>" and s = demo_heap and w = "[]" and db = 0
         and fcommit = True and immediate = False
         and ?t0.0 = "\<lparr>transaction_db = None, transaction_fcommit = True\<rparr>"
         and ?w0.0 = "[sqlite3_exec (Some 7) (Some ''BEGIN'')]"]
  by (simp add: transaction_lifetime_def transaction_ctor_def transaction_dtor_def
      transaction_commit_def transaction_rollback_def database_begin_def database_commit_def
      database_rollback_def database_execute_def native_def sqlite_call_def demo_def
      demo_heap_def demo_database_def)

section \<open>Looking a column up by its name\<close>

lemma word32_less_Suc: "i < sz \<Longrightarrow> unat (i + 1) = unat i + 1" for i sz :: "32 word"
proof -
  assume "i < sz"
  then have "unat i < unat sz" by (simp add: word_less_nat_alt)
  moreover have "unat sz < 2 ^ 32" using unsigned_less [of sz, where ?'a = nat] by simp
  ultimately have "unat i + unat (1 :: 32 word) < 2 ^ LENGTH(32)" by simp
  then show ?thesis using unat_add_lem [of i 1] by simp
qed

lemma column_index_loop_Some:
  "column_index_loop E st w name sz i = Some k \<Longrightarrow>
     i \<le> k \<and> k < sz \<and> selecter_column_name E st w k = name
     \<and> (\<forall>j. i \<le> j \<and> j < k \<longrightarrow> selecter_column_name E st w j \<noteq> name)"
proof (induction E st w name sz i rule: column_index_loop.induct)
  case (1 E st w name sz i)
  show ?case
  proof (cases "i < sz")
    case False
    with "1.prems" show ?thesis by simp
  next
    case less: True
    show ?thesis
    proof (cases "name = selecter_column_name E st w i")
      case True
      with less "1.prems" show ?thesis by auto
    next
      case False
      with less "1.prems" have "column_index_loop E st w name sz (i + 1) = Some k"
        by simp
      from "1.IH" [OF less False this]
      have ih: "i + 1 \<le> k" "k < sz" "selecter_column_name E st w k = name"
        "\<forall>j. i + 1 \<le> j \<and> j < k \<longrightarrow> selecter_column_name E st w j \<noteq> name"
        by auto
      have suc: "unat (i + 1) = unat i + 1" using less by (rule word32_less_Suc)
      have "i \<le> k" using ih(1) suc by (simp add: word_le_nat_alt)
      moreover have "selecter_column_name E st w j \<noteq> name" if "i \<le> j" "j < k" for j
      proof (cases "j = i")
        case True
        with False show ?thesis by simp
      next
        case False
        have "unat i \<le> unat j" using that(1) by (simp add: word_le_nat_alt)
        moreover have "unat i \<noteq> unat j" using False by (simp add: word_unat_eq_iff)
        ultimately have "unat (i + 1) \<le> unat j" using suc by simp
        then have "i + 1 \<le> j" by (simp add: word_le_nat_alt)
        with ih(4) that(2) show ?thesis by blast
      qed
      ultimately show ?thesis using ih by blast
    qed
  qed
qed

lemma column_index_loop_None:
  "column_index_loop E st w name sz i = None \<Longrightarrow> i \<le> j \<Longrightarrow> j < sz \<Longrightarrow>
     selecter_column_name E st w j \<noteq> name"
proof (induction E st w name sz i rule: column_index_loop.induct)
  case (1 E st w name sz i)
  from "1.prems"(2,3) have less: "i < sz" by simp
  with "1.prems"(1) have differs: "name \<noteq> selecter_column_name E st w i"
    by (auto split: if_splits)
  with less "1.prems"(1) have rest: "column_index_loop E st w name sz (i + 1) = None"
    by simp
  show ?case
  proof (cases "j = i")
    case True
    with differs show ?thesis by simp
  next
    case False
    have suc: "unat (i + 1) = unat i + 1" using less by (rule word32_less_Suc)
    have "unat i \<le> unat j" using "1.prems"(2) by (simp add: word_le_nat_alt)
    moreover have "unat i \<noteq> unat j" using False by (simp add: word_unat_eq_iff)
    ultimately have "unat (i + 1) \<le> unat j" using suc by simp
    then have "i + 1 \<le> j" by (simp add: word_le_nat_alt)
    from "1.IH" [OF less differs rest this "1.prems"(3)] show ?thesis .
  qed
qed

text \<open>
  Claim C10. \<open>selecter::column_index(name)\<close> returns the index \<open>i\<close> exactly when \<open>i\<close> is
  the smallest index below \<open>column_count()\<close> whose \<open>column_name\<close> is \<open>name\<close>, and returns
  \<open>None\<close> exactly when no index below \<open>column_count()\<close> has that name.
\<close>

theorem selecter_column_index_least:
  "(selecter_column_index E st w name = Some i)
     = (i < selecter_column_count E st w \<and> selecter_column_name E st w i = name
        \<and> (\<forall>j. j < i \<longrightarrow> selecter_column_name E st w j \<noteq> name))
   \<and> (selecter_column_index E st w name = None)
     = (\<forall>j. j < selecter_column_count E st w \<longrightarrow> selecter_column_name E st w j \<noteq> name)"
proof -
  let ?sz = "selecter_column_count E st w"
  let ?idx = "column_index_loop E st w name ?sz 0"
  have found: "k < ?sz \<and> selecter_column_name E st w k = name
       \<and> (\<forall>j. j < k \<longrightarrow> selecter_column_name E st w j \<noteq> name)" if "?idx = Some k" for k
    using column_index_loop_Some [OF that] by simp
  have missing: "selecter_column_name E st w j \<noteq> name" if "?idx = None" "j < ?sz" for j
    using column_index_loop_None [OF that(1) _ that(2)] by simp
  have least: "?idx = Some i" if lt: "i < ?sz" and eq: "selecter_column_name E st w i = name"
    and before: "\<forall>j. j < i \<longrightarrow> selecter_column_name E st w j \<noteq> name"
  proof (cases ?idx)
    case None
    from missing [OF None lt] eq show ?thesis by simp
  next
    case (Some k)
    from found [OF Some] before eq have "\<not> k < i" and "\<not> i < k" by auto
    then have "k = i" by simp
    with Some show ?thesis by simp
  qed
  have none: "?idx = None" if "\<forall>j. j < ?sz \<longrightarrow> selecter_column_name E st w j \<noteq> name"
  proof (cases ?idx)
    case None
    then show ?thesis .
  next
    case (Some k)
    from found [OF Some] that show ?thesis by blast
  qed
  show ?thesis
    unfolding selecter_column_index_def using found least missing none by blast
qed

theorem selecter_column_index_least_witness:
  "selecter_column_index demo \<lparr>statement_db = 0, statement_stmt = Some 1\<rparr> [] ''id'' = Some 0
   \<and> selecter_column_index demo \<lparr>statement_db = 0, statement_stmt = Some 1\<rparr> [] ''name'' = Some 1
   \<and> selecter_column_index demo \<lparr>statement_db = 0, statement_stmt = Some 1\<rparr> [] ''age'' = None"
  using selecter_column_index_least
      [where E = demo and st = "\<lparr>statement_db = 0, statement_stmt = Some 1\<rparr>" and w = "[]"
         and name = "''id''" and i = 0]
  by (simp add: selecter_column_index_def selecter_column_count_def selecter_column_name_def
      demo_def demo_column_name_def)

end
